theory Spec2Isabelle
  imports Complex_Main "HOL-Library.Word" "HOL-Library.Monad_Syntax"
begin

section \<open>GeographicLib::CircularEngine\<close>

text \<open>
  A shallow embedding of \<^verbatim>\<open>include/GeographicLib/CircularEngine.hpp\<close>: the angle
  reduction \<^verbatim>\<open>cossin\<close>, the constructor, the two \<^verbatim>\<open>SetCoeff\<close> overloads and
  the four evaluation operators.

  \<^bold>\<open>Numbers.\<close> \<^verbatim>\<open>Math::real\<close> is a typedef of \<^verbatim>\<open>Math.hpp\<close> (a binary
  floating-point type); it is modelled by \<^typ>\<open>real\<close>. The comparisons of the source are
  exact on both. The only arithmetic of the wrap step is \<^verbatim>\<open>x - 360\<close> for
  \<open>x \<ge> 180\<close> and \<^verbatim>\<open>x + 360\<close> for \<open>x < -180\<close>; for \<open>180 \<le> \<bar>x\<bar> \<le> 720\<close>
  the two operands of the difference are within a factor two of each other, so the binary
  floating-point result is the exact one (Sterbenz), and on that range the model and the
  program agree on every finite input. Infinities and NaN have no counterpart in the model.

  \<^bold>\<open>Integers.\<close> \<^verbatim>\<open>int\<close> is taken as a 32-bit two's complement integer
  (\<^typ>\<open>32 word\<close>, read with \<^const>\<open>sint\<close>); \<open>+\<close> wraps.
\<close>

subsection \<open>What the header uses and does not define\<close>

text \<open>
  \<^verbatim>\<open>Math::degree<real>()\<close> (the number of radians in a degree) belongs to
  \<^verbatim>\<open>Math.hpp\<close>, and \<^verbatim>\<open>cos\<close> and \<^verbatim>\<open>sin\<close> to the C++ standard library. None is
  defined in this header, so each is a parameter of the model.
\<close>

record libm =
  degree :: real
  cos_std :: "real \<Rightarrow> real"
  sin_std :: "real \<Rightarrow> real"

subsection \<open>Angle reduction\<close>

text \<open>
  The first statement of \<^verbatim>\<open>cossin\<close>:
  \<^verbatim>\<open>x = x >= 180 ? x - 360 : (x < -180 ? x + 360 : x);\<close>
\<close>

definition cossin_wrap :: "real \<Rightarrow> real" where
  "cossin_wrap x = (if x \<ge> 180 then x - 360 else (if x < -180 then x + 360 else x))"

text \<open>
  The whole routine; the two reference parameters \<^verbatim>\<open>cosx\<close> and \<^verbatim>\<open>sinx\<close> are
  assigned on every path and are returned as a pair.
\<close>

definition cossin :: "libm \<Rightarrow> real \<Rightarrow> real \<times> real" where
  "cossin L x0 =
     (let x = cossin_wrap x0;
          xi = x * degree L;
          cosx = (if \<bar>x\<bar> = 90 then 0 else cos_std L xi);
          sinx = (if x = -180 then 0 else sin_std L xi)
      in (cosx, sinx))"

subsection \<open>The evaluator's state\<close>

datatype normalization = full | schmidt

text \<open>
  The data members of the class, in the order of their declaration
  (\<^verbatim>\<open>_M\<close>, \<^verbatim>\<open>_gradp\<close>, ... ; an identifier cannot start with an underscore here, hence
  the prefix \<open>ce\<close>). A \<^verbatim>\<open>std::vector<real>\<close> is a list.
\<close>

record engine =
  ce_M :: "32 word"
  ce_gradp :: bool
  ce_norm :: normalization
  ce_scale :: real
  ce_a :: real
  ce_r :: real
  ce_u :: real
  ce_t :: real
  ce_wc :: "real list"
  ce_ws :: "real list"
  ce_wrc :: "real list"
  ce_wrs :: "real list"
  ce_wtc :: "real list"
  ce_wts :: "real list"
  ce_q :: real
  ce_uq :: real
  ce_uq2 :: real

subsection \<open>Construction\<close>

text \<open>
  \<^verbatim>\<open>std::vector<real>(n, 0)\<close> with \<^verbatim>\<open>n\<close> of type \<^verbatim>\<open>int\<close>: the count is
  converted to the unsigned \<^verbatim>\<open>size_type\<close>, so a negative \<^verbatim>\<open>n\<close> becomes a count
  beyond \<^verbatim>\<open>max_size()\<close> and the constructor throws (\<open>None\<close>); otherwise the vector
  holds \<^verbatim>\<open>n\<close> copies of the value.
\<close>

definition vector_fill :: "32 word \<Rightarrow> real \<Rightarrow> real list option" where
  "vector_fill n v = (if sint n < 0 then None else Some (replicate (nat (sint n)) v))"

text \<open>
  Modelled from the spec: \<^verbatim>\<open>Math::sq\<close> is defined in \<^verbatim>\<open>Math.hpp\<close>, which is not
  part of the sources at hand; the specification gives \<open>uq2 = uq\<^sup>2\<close>.
\<close>

definition sq :: "real \<Rightarrow> real" where
  "sq x = x * x"

text \<open>
  The constructor. The members are initialised in the order of their declaration, so the
  six vectors are built from \<^verbatim>\<open>_M\<close> and \<^verbatim>\<open>_gradp\<close>; the body then sets
  \<^verbatim>\<open>_q\<close>, \<^verbatim>\<open>_uq\<close> and \<^verbatim>\<open>_uq2\<close>. \<open>None\<close> stands for the exception of a vector
  constructor. \<^verbatim>\<open>_M + 1\<close> is an \<^verbatim>\<open>int\<close> addition: at \<^verbatim>\<open>INT_MAX\<close> it overflows
  (undefined in C++; the wrap-around of the hardware gives \<^verbatim>\<open>INT_MIN\<close>, a negative
  count). The quotient \<^verbatim>\<open>_a / _r\<close> is the division of \<^typ>\<open>real\<close>; for \<^verbatim>\<open>_r\<close> zero
  the program gets an infinity or a NaN, which the model does not have.
\<close>

definition CircularEngine ::
  "32 word \<Rightarrow> bool \<Rightarrow> normalization \<Rightarrow> real \<Rightarrow> real \<Rightarrow> real \<Rightarrow> real \<Rightarrow> real \<Rightarrow> engine option"
where
  "CircularEngine M gradp nrm scale a r u t = do {
     wc \<leftarrow> vector_fill (M + 1) 0;
     ws \<leftarrow> vector_fill (M + 1) 0;
     wrc \<leftarrow> vector_fill (if gradp then M + 1 else 0) 0;
     wrs \<leftarrow> vector_fill (if gradp then M + 1 else 0) 0;
     wtc \<leftarrow> vector_fill (if gradp then M + 1 else 0) 0;
     wts \<leftarrow> vector_fill (if gradp then M + 1 else 0) 0;
     let q = a / r;
     let uq = u * q;
     let uq2 = sq uq;
     Some \<lparr>ce_M = M, ce_gradp = gradp, ce_norm = nrm, ce_scale = scale,
            ce_a = a, ce_r = r, ce_u = u, ce_t = t,
            ce_wc = wc, ce_ws = ws, ce_wrc = wrc, ce_wrs = wrs, ce_wtc = wtc, ce_wts = wts,
            ce_q = q, ce_uq = uq, ce_uq2 = uq2\<rparr>
   }"

subsection \<open>Loading the coefficients\<close>

text \<open>
  \<^verbatim>\<open>v[m] = x\<close> on a vector with \<^verbatim>\<open>m\<close> of type \<^verbatim>\<open>int\<close>:
  \<^verbatim>\<open>operator[]\<close> does not check its index, and an index outside the vector (a negative
  \<^verbatim>\<open>m\<close> is converted to a huge unsigned one) is undefined behaviour: \<open>None\<close>.
\<close>

definition vec_set :: "real list \<Rightarrow> 32 word \<Rightarrow> real \<Rightarrow> real list option" where
  "vec_set xs m v =
     (if 0 \<le> sint m \<and> nat (sint m) < length xs then Some (xs[nat (sint m) := v]) else None)"

text \<open>\<^verbatim>\<open>void SetCoeff(int m, real wc, real ws)\<close>\<close>

definition SetCoeff3 :: "engine \<Rightarrow> 32 word \<Rightarrow> real \<Rightarrow> real \<Rightarrow> engine option" where
  "SetCoeff3 e m wc ws = do {
     wc' \<leftarrow> vec_set (ce_wc e) m wc;
     ws' \<leftarrow> vec_set (ce_ws e) m ws;
     Some (e\<lparr>ce_wc := wc', ce_ws := ws'\<rparr>)
   }"

text \<open>\<^verbatim>\<open>void SetCoeff(int m, real wc, real ws, real wrc, real wrs, real wtc, real wts)\<close>\<close>

definition SetCoeff7 ::
  "engine \<Rightarrow> 32 word \<Rightarrow> real \<Rightarrow> real \<Rightarrow> real \<Rightarrow> real \<Rightarrow> real \<Rightarrow> real \<Rightarrow> engine option"
where
  "SetCoeff7 e m wc ws wrc wrs wtc wts = do {
     wc' \<leftarrow> vec_set (ce_wc e) m wc;
     ws' \<leftarrow> vec_set (ce_ws e) m ws;
     let e1 = e\<lparr>ce_wc := wc', ce_ws := ws'\<rparr>;
     if ce_gradp e1 then do {
       wrc' \<leftarrow> vec_set (ce_wrc e1) m wrc;
       wrs' \<leftarrow> vec_set (ce_wrs e1) m wrs;
       wtc' \<leftarrow> vec_set (ce_wtc e1) m wtc;
       wts' \<leftarrow> vec_set (ce_wts e1) m wts;
       Some (e1\<lparr>ce_wrc := wrc', ce_wrs := wrs', ce_wtc := wtc', ce_wts := wts'\<rparr>)
     } else Some e1
   }"

text \<open>
  The loading phase: the factory calls one of the two overloads once per order. A call
  whose index is out of range ends the run (\<open>None\<close>).
\<close>

datatype coeff_call =
  Set3 "32 word" real real
| Set7 "32 word" real real real real real real

fun run_call :: "engine \<Rightarrow> coeff_call \<Rightarrow> engine option" where
  "run_call e (Set3 m wc ws) = SetCoeff3 e m wc ws"
| "run_call e (Set7 m wc ws wrc wrs wtc wts) = SetCoeff7 e m wc ws wrc wrs wtc wts"

fun load_coeffs :: "engine \<Rightarrow> coeff_call list \<Rightarrow> engine option" where
  "load_coeffs e [] = Some e"
| "load_coeffs e (c # cs) = (case run_call e c of None \<Rightarrow> None | Some e' \<Rightarrow> load_coeffs e' cs)"

subsection \<open>Evaluation\<close>

text \<open>
  \<^verbatim>\<open>Math::real Value(bool gradp, real cl, real sl, real& gradx, real& grady, real& gradz) const\<close>
  is declared in the header and defined elsewhere, so it is a parameter of the model: a
  function of the evaluator's state (it is a \<^verbatim>\<open>const\<close> member), of its three value
  arguments and of the contents of the three reference arguments at the call, which gives
  the returned value and the contents of the three reference arguments at the return.
\<close>

type_synonym value_fn =
  "engine \<Rightarrow> bool \<Rightarrow> real \<Rightarrow> real \<Rightarrow> real \<times> real \<times> real \<Rightarrow> real \<times> (real \<times> real \<times> real)"

text \<open>
  \<^verbatim>\<open>Math::real operator()(real coslon, real sinlon) const\<close>. The local \<^verbatim>\<open>dummy\<close> is
  not initialised and is passed for all three reference arguments; its indeterminate content
  is the argument \<open>dummy\<close>.
\<close>

definition operator_cossin :: "value_fn \<Rightarrow> real \<Rightarrow> engine \<Rightarrow> real \<Rightarrow> real \<Rightarrow> real" where
  "operator_cossin Value dummy e coslon sinlon =
     fst (Value e False coslon sinlon (dummy, dummy, dummy))"

text \<open>\<^verbatim>\<open>Math::real operator()(real lon) const\<close>\<close>

definition operator_lon :: "libm \<Rightarrow> value_fn \<Rightarrow> real \<Rightarrow> engine \<Rightarrow> real \<Rightarrow> real" where
  "operator_lon L Value dummy e lon =
     (case cossin L lon of (coslon, sinlon) \<Rightarrow> operator_cossin Value dummy e coslon sinlon)"

text \<open>
  \<^verbatim>\<open>Math::real operator()(real coslon, real sinlon, real& gradx, real& grady, real& gradz) const\<close>;
  \<open>grad\<close> is the content of the caller's three variables at the call, and the result
  holds the returned value and their content at the return.
\<close>

definition operator_cossin_grad ::
  "value_fn \<Rightarrow> engine \<Rightarrow> real \<Rightarrow> real \<Rightarrow> real \<times> real \<times> real \<Rightarrow> real \<times> (real \<times> real \<times> real)"
where
  "operator_cossin_grad Value e coslon sinlon grad = Value e True coslon sinlon grad"

text \<open>\<^verbatim>\<open>Math::real operator()(real lon, real& gradx, real& grady, real& gradz) const\<close>\<close>

definition operator_lon_grad ::
  "libm \<Rightarrow> value_fn \<Rightarrow> engine \<Rightarrow> real \<Rightarrow> real \<times> real \<times> real \<Rightarrow> real \<times> (real \<times> real \<times> real)"
where
  "operator_lon_grad L Value e lon grad =
     (case cossin L lon of (coslon, sinlon) \<Rightarrow> operator_cossin_grad Value e coslon sinlon grad)"

subsection \<open>The size invariant of the class\<close>

text \<open>
  The documentation of the constructor and the specification give the lengths of the six
  vectors: \<^verbatim>\<open>_M + 1\<close> for the two value arrays, and for the four gradient arrays
  \<^verbatim>\<open>_M + 1\<close> if \<^verbatim>\<open>_gradp\<close> and 0 otherwise.
\<close>

definition sized :: "engine \<Rightarrow> bool" where
  "sized e =
     (- 1 \<le> sint (ce_M e)
      \<and> length (ce_wc e) = nat (sint (ce_M e) + 1)
      \<and> length (ce_ws e) = nat (sint (ce_M e) + 1)
      \<and> length (ce_wrc e) = (if ce_gradp e then nat (sint (ce_M e) + 1) else 0)
      \<and> length (ce_wrs e) = (if ce_gradp e then nat (sint (ce_M e) + 1) else 0)
      \<and> length (ce_wtc e) = (if ce_gradp e then nat (sint (ce_M e) + 1) else 0)
      \<and> length (ce_wts e) = (if ce_gradp e then nat (sint (ce_M e) + 1) else 0))"

text \<open>The order \<^verbatim>\<open>m\<close> that a call of the loading phase addresses.\<close>

fun call_order :: "coeff_call \<Rightarrow> 32 word" where
  "call_order (Set3 m wc ws) = m"
| "call_order (Set7 m wc ws wrc wrs wtc wts) = m"

section \<open>Auxiliary facts\<close>

subsection \<open>The successor of an \<^verbatim>\<open>int\<close>\<close>

lemma sint_succ_nonneg:
  fixes M :: "32 word"
  assumes "0 \<le> sint (M + 1)"
  shows "sint (M + 1) = sint M + 1"
proof -
  have lo: "- (2 ^ 31) \<le> sint M" using sint_ge [of M] by simp
  have hi: "sint M < 2 ^ 31" using sint_lt [of M] by simp
  have eq: "sint (M + 1) = signed_take_bit 31 (sint M + 1)"
    by (simp add: sint_word_ariths)
  show ?thesis
  proof (cases "sint M + 1 < 2 ^ 31")
    case True
    then have "signed_take_bit 31 (sint M + 1) = sint M + 1"
      using lo by (simp add: signed_take_bit_int_eq_self)
    with eq show ?thesis by simp
  next
    case False
    with hi have "sint M = 2 ^ 31 - 1" by simp
    then have "sint M = sint (2147483647 :: 32 word)" by simp
    then have "M = 2147483647" by (rule signed_word_eqI)
    then have "sint (M + 1) < 0" by simp
    with assms show ?thesis by simp
  qed
qed

lemma sint_succ_in_range:
  fixes M :: "32 word"
  assumes "- 1 \<le> sint M" "sint M < 2147483647"
  shows "sint (M + 1) = sint M + 1"
proof -
  have "signed_take_bit 31 (sint M + 1) = sint M + 1"
    using assms by (simp add: signed_take_bit_int_eq_self)
  then show ?thesis by (simp add: sint_word_ariths)
qed

subsection \<open>Construction and loading keep the size invariant\<close>

lemma vector_fill_Some:
  "vector_fill n v = Some xs \<longleftrightarrow> 0 \<le> sint n \<and> xs = replicate (nat (sint n)) v"
  by (auto simp: vector_fill_def)

lemma vector_fill_zero [simp]: "vector_fill 0 v = Some []"
  by (simp add: vector_fill_def)

lemma CircularEngine_Some:
  assumes "CircularEngine M gradp nrm scale a r u t = Some e"
  shows "0 \<le> sint (M + 1)"
    and "e = \<lparr>ce_M = M, ce_gradp = gradp, ce_norm = nrm, ce_scale = scale,
            ce_a = a, ce_r = r, ce_u = u, ce_t = t,
            ce_wc = replicate (nat (sint (M + 1))) 0,
            ce_ws = replicate (nat (sint (M + 1))) 0,
            ce_wrc = (if gradp then replicate (nat (sint (M + 1))) 0 else []),
            ce_wrs = (if gradp then replicate (nat (sint (M + 1))) 0 else []),
            ce_wtc = (if gradp then replicate (nat (sint (M + 1))) 0 else []),
            ce_wts = (if gradp then replicate (nat (sint (M + 1))) 0 else []),
            ce_q = a / r, ce_uq = u * (a / r), ce_uq2 = sq (u * (a / r))\<rparr>"
  using assms
  by (auto simp: CircularEngine_def vector_fill_def Let_def split: if_splits bind_splits)

lemma CircularEngine_total:
  assumes "0 \<le> sint (M + 1)"
  shows "\<exists>e. CircularEngine M gradp nrm scale a r u t = Some e"
  using assms by (simp add: CircularEngine_def vector_fill_def Let_def)

lemma sized_CircularEngine:
  assumes "CircularEngine M gradp nrm scale a r u t = Some e"
  shows "sized e"
proof -
  from assms have nn: "0 \<le> sint (M + 1)" by (rule CircularEngine_Some(1))
  then have s: "sint (M + 1) = sint M + 1" by (rule sint_succ_nonneg)
  show ?thesis
    using nn unfolding CircularEngine_Some(2) [OF assms] sized_def s by simp
qed

lemma vec_set_Some:
  "vec_set xs m v = Some ys \<longleftrightarrow> 0 \<le> sint m \<and> nat (sint m) < length xs \<and> ys = xs[nat (sint m) := v]"
  by (auto simp: vec_set_def)

lemma vec_set_in_range:
  "0 \<le> sint m \<Longrightarrow> nat (sint m) < length xs \<Longrightarrow> vec_set xs m v = Some (xs[nat (sint m) := v])"
  by (simp add: vec_set_def)

lemma sized_index:
  assumes "sized e" "0 \<le> sint m" "sint m \<le> sint (ce_M e)"
  shows "nat (sint m) < length (ce_wc e)" "nat (sint m) < length (ce_ws e)"
    "ce_gradp e \<Longrightarrow> nat (sint m) < length (ce_wrc e)"
    "ce_gradp e \<Longrightarrow> nat (sint m) < length (ce_wrs e)"
    "ce_gradp e \<Longrightarrow> nat (sint m) < length (ce_wtc e)"
    "ce_gradp e \<Longrightarrow> nat (sint m) < length (ce_wts e)"
  using assms by (simp_all add: sized_def)

lemma SetCoeff3_sized:
  assumes "sized e" "0 \<le> sint m" "sint m \<le> sint (ce_M e)"
  shows "SetCoeff3 e m wc ws =
           Some (e\<lparr>ce_wc := (ce_wc e)[nat (sint m) := wc], ce_ws := (ce_ws e)[nat (sint m) := ws]\<rparr>)"
  using sized_index(1,2) [OF assms] assms(2)
  by (simp add: SetCoeff3_def vec_set_in_range)

lemma SetCoeff7_sized:
  assumes "sized e" "0 \<le> sint m" "sint m \<le> sint (ce_M e)"
  shows "SetCoeff7 e m wc ws wrc wrs wtc wts =
           Some (if ce_gradp e
                 then e\<lparr>ce_wc := (ce_wc e)[nat (sint m) := wc],
                        ce_ws := (ce_ws e)[nat (sint m) := ws],
                        ce_wrc := (ce_wrc e)[nat (sint m) := wrc],
                        ce_wrs := (ce_wrs e)[nat (sint m) := wrs],
                        ce_wtc := (ce_wtc e)[nat (sint m) := wtc],
                        ce_wts := (ce_wts e)[nat (sint m) := wts]\<rparr>
                 else e\<lparr>ce_wc := (ce_wc e)[nat (sint m) := wc],
                        ce_ws := (ce_ws e)[nat (sint m) := ws]\<rparr>)"
proof (cases "ce_gradp e")
  case True
  then show ?thesis
    using sized_index [OF assms] assms(2)
    by (simp add: SetCoeff7_def vec_set_in_range Let_def)
next
  case False
  then show ?thesis
    using sized_index(1,2) [OF assms] assms(2)
    by (simp add: SetCoeff7_def vec_set_in_range Let_def)
qed

lemma SetCoeff3_keeps_sized:
  assumes "sized e" "SetCoeff3 e m wc ws = Some e'"
  shows "sized e'"
  using assms
  by (auto simp: SetCoeff3_def vec_set_Some sized_def split: bind_splits)

lemma SetCoeff7_keeps_sized:
  assumes "sized e" "SetCoeff7 e m wc ws wrc wrs wtc wts = Some e'"
  shows "sized e'"
  using assms
  by (auto simp: SetCoeff7_def vec_set_Some sized_def Let_def split: bind_splits if_splits)

lemma run_call_keeps_sized:
  "sized e \<Longrightarrow> run_call e c = Some e' \<Longrightarrow> sized e'"
  by (cases c) (auto dest: SetCoeff3_keeps_sized SetCoeff7_keeps_sized)

lemma load_coeffs_keeps_sized:
  "sized e \<Longrightarrow> load_coeffs e cs = Some e' \<Longrightarrow> sized e'"
proof (induction cs arbitrary: e)
  case Nil
  then show ?case by simp
next
  case (Cons c cs)
  then show ?case
    by (auto split: option.splits dest: run_call_keeps_sized)
qed

lemma SetCoeff3_keeps_M:
  "SetCoeff3 e m wc ws = Some e' \<Longrightarrow> ce_M e' = ce_M e \<and> ce_gradp e' = ce_gradp e"
  by (auto simp: SetCoeff3_def split: bind_splits)

lemma SetCoeff7_keeps_M:
  "SetCoeff7 e m wc ws wrc wrs wtc wts = Some e' \<Longrightarrow> ce_M e' = ce_M e \<and> ce_gradp e' = ce_gradp e"
  by (auto simp: SetCoeff7_def Let_def split: bind_splits if_splits)

lemma load_coeffs_keeps_M:
  "load_coeffs e cs = Some e' \<Longrightarrow> ce_M e' = ce_M e \<and> ce_gradp e' = ce_gradp e"
proof (induction cs arbitrary: e)
  case Nil
  then show ?case by simp
next
  case (Cons c cs)
  then show ?case
    by (cases c) (auto split: option.splits dest: SetCoeff3_keeps_M SetCoeff7_keeps_M)
qed


lemma run_call_sized:
  assumes "sized e" "0 \<le> sint (call_order c)" "sint (call_order c) \<le> sint (ce_M e)"
  shows "\<exists>e'. run_call e c = Some e'"
  using assms by (cases c) (simp_all add: SetCoeff3_sized SetCoeff7_sized)

lemma run_call_keeps_M:
  "run_call e c = Some e' \<Longrightarrow> ce_M e' = ce_M e \<and> ce_gradp e' = ce_gradp e"
  by (cases c) (auto dest: SetCoeff3_keeps_M SetCoeff7_keeps_M)

lemma load_coeffs_sized:
  assumes "sized e"
    and "\<forall>c \<in> set cs. 0 \<le> sint (call_order c) \<and> sint (call_order c) \<le> sint (ce_M e)"
  shows "\<exists>e'. load_coeffs e cs = Some e'"
  using assms
proof (induction cs arbitrary: e)
  case Nil
  then show ?case by simp
next
  case (Cons c cs)
  from Cons.prems obtain e1 where e1: "run_call e c = Some e1"
    using run_call_sized [of e c] by auto
  have "sized e1" using Cons.prems(1) e1 by (rule run_call_keeps_sized)
  moreover have "ce_M e1 = ce_M e" using run_call_keeps_M [OF e1] by simp
  ultimately have "\<exists>e'. load_coeffs e1 cs = Some e'"
    using Cons.IH [of e1] Cons.prems(2) by simp
  with e1 show ?case by simp
qed

section \<open>Properties of the angle reduction\<close>

text \<open>
  C1 (as stated, refuted): the wrap step is a single conditional shift by 360, so the
  longitude 540 is sent to 180, which is outside the half-open interval \<open>[-180, 180)\<close>.
\<close>

theorem cossin_wrap_540_counterexample:
  "\<not> (- 180 \<le> cossin_wrap 540 \<and> cossin_wrap 540 < 180)"
  by (simp add: cossin_wrap_def)

text \<open>
  C1 (amended): the wrap step subtracts 360 when \<open>x \<ge> 180\<close>, adds 360 when
  \<open>x < -180\<close> and leaves \<open>x\<close> unchanged otherwise; its result lies in \<open>[-180, 180)\<close>
  exactly for the longitudes \<open>x\<close> of \<open>[-540, 540)\<close>.
\<close>

theorem cossin_wrap_range:
  "(180 \<le> x \<longrightarrow> cossin_wrap x = x - 360)
   \<and> (x < - 180 \<longrightarrow> cossin_wrap x = x + 360)
   \<and> (- 180 \<le> x \<and> x < 180 \<longrightarrow> cossin_wrap x = x)
   \<and> ((- 180 \<le> cossin_wrap x \<and> cossin_wrap x < 180) = (- 540 \<le> x \<and> x < 540))"
  by (auto simp: cossin_wrap_def)

theorem cossin_wrap_range_witness:
  "((180::real) \<le> 200 \<and> cossin_wrap 200 = - 160 \<and> - 540 \<le> (200::real) \<and> (200::real) < 540
      \<and> - 180 \<le> cossin_wrap 200 \<and> cossin_wrap 200 < 180)
   \<and> ((- 200::real) < - 180 \<and> cossin_wrap (- 200) = 160
      \<and> - 180 \<le> cossin_wrap (- 200) \<and> cossin_wrap (- 200) < 180)
   \<and> ((- 180::real) \<le> 45 \<and> (45::real) < 180 \<and> cossin_wrap 45 = 45)"
  using cossin_wrap_range [of 200] cossin_wrap_range [of "- 200"] cossin_wrap_range [of 45]
  by simp

text \<open>
  C3: the longitudes 180 and -180 are reduced to the same pair, since both are wrapped to
  the representative -180 before the trigonometric evaluation.
\<close>

theorem cossin_180_eq_minus_180:
  "cossin L 180 = cossin L (- 180)
   \<and> cossin_wrap 180 = - 180 \<and> cossin_wrap (- 180) = - 180"
  by (simp add: cossin_def cossin_wrap_def)

text \<open>
  C10: a longitude of \<open>[-180, 180)\<close> is left unchanged by the wrap step, so reducing an
  already reduced representative gives the same pair.
\<close>

theorem cossin_wrap_idem:
  "- 180 \<le> x \<Longrightarrow> x < 180 \<Longrightarrow>
     cossin_wrap x = x \<and> cossin L (cossin_wrap x) = cossin L x"
  by (simp add: cossin_wrap_def)

theorem cossin_wrap_idem_witness:
  "(- 180::real) \<le> - 180 \<and> (- 180::real) < 180 \<and> cossin_wrap (- 180) = - 180
   \<and> cossin \<lparr>degree = pi / 180, cos_std = cos, sin_std = sin\<rparr> (cossin_wrap (- 180))
     = cossin \<lparr>degree = pi / 180, cos_std = cos, sin_std = sin\<rparr> (- 180)"
  using cossin_wrap_idem [of "- 180" "\<lparr>degree = pi / 180, cos_std = cos, sin_std = sin\<rparr>"]
  by simp

text \<open>
  C2: after the wrap step, a wrapped angle of absolute value 90 gives the cosine 0 exactly
  and the wrapped angle -180 gives the sine 0 exactly (the other component being the
  library's); for every other wrapped angle the pair is the library's cosine and sine of the
  wrapped angle times \<^verbatim>\<open>Math::degree<real>()\<close>.
\<close>

theorem cossin_exact_zeros:
  "(\<bar>cossin_wrap x\<bar> = 90 \<longrightarrow>
      cossin L x = (0, sin_std L (cossin_wrap x * degree L)))
   \<and> (cossin_wrap x = - 180 \<longrightarrow>
      cossin L x = (cos_std L (cossin_wrap x * degree L), 0))
   \<and> (\<bar>cossin_wrap x\<bar> \<noteq> 90 \<and> cossin_wrap x \<noteq> - 180 \<longrightarrow>
      cossin L x = (cos_std L (cossin_wrap x * degree L), sin_std L (cossin_wrap x * degree L)))"
  by (auto simp: cossin_def Let_def)

theorem cossin_exact_zeros_witness:
  "(\<bar>cossin_wrap 90\<bar> = 90
      \<and> cossin \<lparr>degree = 1 / 64, cos_std = (\<lambda>y. y + 1), sin_std = (\<lambda>y. y)\<rparr> 90 = (0, 45 / 32))
   \<and> (\<bar>cossin_wrap (- 90)\<bar> = 90
      \<and> fst (cossin \<lparr>degree = 1 / 64, cos_std = (\<lambda>y. y + 1), sin_std = (\<lambda>y. y)\<rparr> (- 90)) = 0)
   \<and> (cossin_wrap 180 = - 180
      \<and> cossin \<lparr>degree = 1 / 64, cos_std = (\<lambda>y. y + 1), sin_std = (\<lambda>y. y)\<rparr> 180 = (- 29 / 16, 0))
   \<and> (\<bar>cossin_wrap 32\<bar> \<noteq> 90 \<and> cossin_wrap 32 \<noteq> - 180
      \<and> cossin \<lparr>degree = 1 / 64, cos_std = (\<lambda>y. y + 1), sin_std = (\<lambda>y. y)\<rparr> 32 = (3 / 2, 1 / 2))"
proof -
  let ?L = "\<lparr>degree = 1 / 64, cos_std = (\<lambda>y. y + 1), sin_std = (\<lambda>y::real. y)\<rparr>"
  have w: "cossin_wrap 90 = 90" "cossin_wrap (- 90) = - 90" "cossin_wrap 180 = - 180"
    "cossin_wrap 32 = 32"
    by (simp_all add: cossin_wrap_def)
  show ?thesis
    using cossin_exact_zeros [of 90 ?L] cossin_exact_zeros [of "- 90" ?L]
      cossin_exact_zeros [of 180 ?L] cossin_exact_zeros [of 32 ?L]
    by (simp add: w)
qed

section \<open>Properties of the evaluation operators\<close>

text \<open>
  C4: the operator taking the longitude in degrees returns what the operator taking the pair
  (cos, sin) returns at \<open>cossin lon\<close>, and the same holds for the two operators with a
  gradient, whose three reference arguments end with the same contents.
\<close>

theorem operator_lon_delegates:
  "operator_lon L Value dummy e lon =
     operator_cossin Value dummy e (fst (cossin L lon)) (snd (cossin L lon))
   \<and> operator_lon_grad L Value e lon grad =
     operator_cossin_grad Value e (fst (cossin L lon)) (snd (cossin L lon)) grad"
  by (simp add: operator_lon_def operator_lon_grad_def split: prod.splits)

section \<open>Properties of construction and loading\<close>

text \<open>
  C5: the evaluator that a call of the constructor with \<open>(M, gradp, norm, scale, a, r, u, t)\<close>
  yields has value arrays \<^verbatim>\<open>_wc\<close> and \<^verbatim>\<open>_ws\<close> of exactly \<open>M + 1\<close> zeros, gradient
  arrays of \<open>M + 1\<close> zeros if \<open>gradp\<close> and empty ones otherwise, and
  \<^verbatim>\<open>_q = a / r\<close>, \<^verbatim>\<open>_uq = u * _q\<close>, \<^verbatim>\<open>_uq2 = Math::sq(_uq)\<close>, the square of \<^verbatim>\<open>_uq\<close>; the constructor yields an evaluator
  for every \<open>M\<close> from -1 to \<^verbatim>\<open>INT_MAX - 1\<close>.
\<close>

theorem CircularEngine_arrays:
  "(CircularEngine M gradp nrm scale a r u t = Some e \<longrightarrow>
      int (length (ce_wc e)) = sint M + 1 \<and> ce_wc e = replicate (nat (sint M + 1)) 0
      \<and> int (length (ce_ws e)) = sint M + 1 \<and> ce_ws e = replicate (nat (sint M + 1)) 0
      \<and> (gradp \<longrightarrow>
           ce_wrc e = replicate (nat (sint M + 1)) 0 \<and> ce_wrs e = replicate (nat (sint M + 1)) 0
           \<and> ce_wtc e = replicate (nat (sint M + 1)) 0 \<and> ce_wts e = replicate (nat (sint M + 1)) 0)
      \<and> (\<not> gradp \<longrightarrow> ce_wrc e = [] \<and> ce_wrs e = [] \<and> ce_wtc e = [] \<and> ce_wts e = [])
      \<and> ce_q e = a / r \<and> ce_uq e = u * ce_q e \<and> ce_uq2 e = (ce_uq e)\<^sup>2)
   \<and> (- 1 \<le> sint M \<and> sint M < 2147483647 \<longrightarrow>
        (\<exists>e'. CircularEngine M gradp nrm scale a r u t = Some e'))"
proof (intro conjI impI)
  assume "- 1 \<le> sint M \<and> sint M < 2147483647"
  then have "0 \<le> sint (M + 1)" by (simp add: sint_succ_in_range)
  then show "\<exists>e'. CircularEngine M gradp nrm scale a r u t = Some e'"
    by (rule CircularEngine_total)
next
  assume c: "CircularEngine M gradp nrm scale a r u t = Some e"
  then have nn: "0 \<le> sint (M + 1)" by (rule CircularEngine_Some(1))
  then have s: "sint (M + 1) = sint M + 1" by (rule sint_succ_nonneg)
  note e = CircularEngine_Some(2) [OF c, unfolded s]
  show "int (length (ce_wc e)) = sint M + 1" using nn s by (simp add: e)
  show "int (length (ce_ws e)) = sint M + 1" using nn s by (simp add: e)
  show "ce_wc e = replicate (nat (sint M + 1)) 0" by (simp add: e)
  show "ce_ws e = replicate (nat (sint M + 1)) 0" by (simp add: e)
  show "ce_q e = a / r" by (simp add: e)
  show "ce_uq e = u * ce_q e" by (simp add: e)
  show "ce_uq2 e = (ce_uq e)\<^sup>2" by (simp add: e sq_def power2_eq_square)
  {
    assume gradp
    then show "ce_wrc e = replicate (nat (sint M + 1)) 0" by (simp add: e)
    from \<open>gradp\<close> show "ce_wrs e = replicate (nat (sint M + 1)) 0" by (simp add: e)
    from \<open>gradp\<close> show "ce_wtc e = replicate (nat (sint M + 1)) 0" by (simp add: e)
    from \<open>gradp\<close> show "ce_wts e = replicate (nat (sint M + 1)) 0" by (simp add: e)
  }
  {
    assume "\<not> gradp"
    then show "ce_wrc e = []" by (simp add: e)
    from \<open>\<not> gradp\<close> show "ce_wrs e = []" by (simp add: e)
    from \<open>\<not> gradp\<close> show "ce_wtc e = []" by (simp add: e)
    from \<open>\<not> gradp\<close> show "ce_wts e = []" by (simp add: e)
  }
qed


theorem CircularEngine_arrays_witness:
  "(CircularEngine 2 True schmidt 1 6 3 5 0 =
      Some \<lparr>ce_M = 2, ce_gradp = True, ce_norm = schmidt, ce_scale = 1,
            ce_a = 6, ce_r = 3, ce_u = 5, ce_t = 0,
            ce_wc = [0, 0, 0], ce_ws = [0, 0, 0], ce_wrc = [0, 0, 0], ce_wrs = [0, 0, 0],
            ce_wtc = [0, 0, 0], ce_wts = [0, 0, 0], ce_q = 2, ce_uq = 10, ce_uq2 = 100\<rparr>)
   \<and> (CircularEngine 2 False full 1 6 3 5 0 =
      Some \<lparr>ce_M = 2, ce_gradp = False, ce_norm = full, ce_scale = 1,
            ce_a = 6, ce_r = 3, ce_u = 5, ce_t = 0,
            ce_wc = [0, 0, 0], ce_ws = [0, 0, 0], ce_wrc = [], ce_wrs = [],
            ce_wtc = [], ce_wts = [], ce_q = 2, ce_uq = 10, ce_uq2 = 100\<rparr>)
   \<and> - 1 \<le> sint (2 :: 32 word) \<and> sint (2 :: 32 word) < 2147483647"
proof -
  have n: "nat (sint (2 :: 32 word) + 1) = 3" by simp
  have r: "replicate 3 (0::real) = [0, 0, 0]" by (simp add: numeral_3_eq_3)
  have h: "- 1 \<le> sint (2 :: 32 word) \<and> sint (2 :: 32 word) < 2147483647" by simp
  obtain e1 where e1: "CircularEngine 2 True schmidt 1 6 3 5 0 = Some e1"
    using CircularEngine_arrays [of 2 True schmidt 1 6 3 5 0] h by blast
  obtain e2 where e2: "CircularEngine 2 False full 1 6 3 5 0 = Some e2"
    using CircularEngine_arrays [of 2 False full 1 6 3 5 0] h by blast
  have "e1 = \<lparr>ce_M = 2, ce_gradp = True, ce_norm = schmidt, ce_scale = 1,
            ce_a = 6, ce_r = 3, ce_u = 5, ce_t = 0,
            ce_wc = [0, 0, 0], ce_ws = [0, 0, 0], ce_wrc = [0, 0, 0], ce_wrs = [0, 0, 0],
            ce_wtc = [0, 0, 0], ce_wts = [0, 0, 0], ce_q = 2, ce_uq = 10, ce_uq2 = 100\<rparr>"
    using CircularEngine_arrays [of 2 True schmidt 1 6 3 5 0 e1] e1
    by (simp add: n r CircularEngine_def vector_fill_def sq_def)
  moreover have "e2 = \<lparr>ce_M = 2, ce_gradp = False, ce_norm = full, ce_scale = 1,
            ce_a = 6, ce_r = 3, ce_u = 5, ce_t = 0,
            ce_wc = [0, 0, 0], ce_ws = [0, 0, 0], ce_wrc = [], ce_wrs = [],
            ce_wtc = [], ce_wts = [], ce_q = 2, ce_uq = 10, ce_uq2 = 100\<rparr>"
    using CircularEngine_arrays [of 2 False full 1 6 3 5 0 e2] e2
    by (simp add: n r CircularEngine_def vector_fill_def sq_def)
  ultimately show ?thesis using e1 e2 h by simp
qed

text \<open>
  C6: on an evaluator built by the constructor and loaded by any calls, the seven-argument
  \<^verbatim>\<open>SetCoeff\<close> with \<open>0 \<le> m \<le> _M\<close> succeeds and stores the two value coefficients at
  index \<open>m\<close>; if \<^verbatim>\<open>_gradp\<close> it also stores the four derivative coefficients at index
  \<open>m\<close> and changes nothing else; if not, the four gradient arrays and every field other than
  \<^verbatim>\<open>_wc\<close> and \<^verbatim>\<open>_ws\<close> are unchanged.
\<close>

theorem SetCoeff7_frame:
  assumes "CircularEngine M gradp nrm scale a r u t = Some e0"
    and "load_coeffs e0 cs = Some e"
    and "0 \<le> sint m" and "sint m \<le> sint (ce_M e)"
  shows "\<exists>e'. SetCoeff7 e m wc ws wrc wrs wtc wts = Some e'
    \<and> ce_wc e' = (ce_wc e)[nat (sint m) := wc] \<and> ce_wc e' ! nat (sint m) = wc
    \<and> ce_ws e' = (ce_ws e)[nat (sint m) := ws] \<and> ce_ws e' ! nat (sint m) = ws
    \<and> (ce_gradp e \<longrightarrow>
         ce_wrc e' = (ce_wrc e)[nat (sint m) := wrc] \<and> ce_wrc e' ! nat (sint m) = wrc
         \<and> ce_wrs e' = (ce_wrs e)[nat (sint m) := wrs] \<and> ce_wrs e' ! nat (sint m) = wrs
         \<and> ce_wtc e' = (ce_wtc e)[nat (sint m) := wtc] \<and> ce_wtc e' ! nat (sint m) = wtc
         \<and> ce_wts e' = (ce_wts e)[nat (sint m) := wts] \<and> ce_wts e' ! nat (sint m) = wts
         \<and> e' = e\<lparr>ce_wc := ce_wc e', ce_ws := ce_ws e', ce_wrc := ce_wrc e',
                   ce_wrs := ce_wrs e', ce_wtc := ce_wtc e', ce_wts := ce_wts e'\<rparr>)
    \<and> (\<not> ce_gradp e \<longrightarrow>
         ce_wrc e' = ce_wrc e \<and> ce_wrs e' = ce_wrs e
         \<and> ce_wtc e' = ce_wtc e \<and> ce_wts e' = ce_wts e
         \<and> e' = e\<lparr>ce_wc := ce_wc e', ce_ws := ce_ws e'\<rparr>)"
proof -
  have "sized e0" using assms(1) by (rule sized_CircularEngine)
  then have sz: "sized e" using assms(2) by (rule load_coeffs_keeps_sized)
  note ix = sized_index [OF sz assms(3,4)]
  note eq = SetCoeff7_sized [OF sz assms(3,4), of wc ws wrc wrs wtc wts]
  show ?thesis
  proof (cases "ce_gradp e")
    case True
    then show ?thesis using ix eq by simp
  next
    case False
    then show ?thesis using ix(1,2) eq by simp
  qed
qed


theorem SetCoeff7_frame_witness:
  "(CircularEngine 1 False full 1 6 3 5 0 =
      Some \<lparr>ce_M = 1, ce_gradp = False, ce_norm = full, ce_scale = 1,
            ce_a = 6, ce_r = 3, ce_u = 5, ce_t = 0,
            ce_wc = [0, 0], ce_ws = [0, 0], ce_wrc = [], ce_wrs = [],
            ce_wtc = [], ce_wts = [], ce_q = 2, ce_uq = 10, ce_uq2 = 100\<rparr>
    \<and> load_coeffs
         \<lparr>ce_M = 1, ce_gradp = False, ce_norm = full, ce_scale = 1,
            ce_a = 6, ce_r = 3, ce_u = 5, ce_t = 0,
            ce_wc = [0, 0], ce_ws = [0, 0], ce_wrc = [], ce_wrs = [],
            ce_wtc = [], ce_wts = [], ce_q = 2, ce_uq = 10, ce_uq2 = 100\<rparr>
         [Set3 0 4 5] =
      Some \<lparr>ce_M = 1, ce_gradp = False, ce_norm = full, ce_scale = 1,
            ce_a = 6, ce_r = 3, ce_u = 5, ce_t = 0,
            ce_wc = [4, 0], ce_ws = [5, 0], ce_wrc = [], ce_wrs = [],
            ce_wtc = [], ce_wts = [], ce_q = 2, ce_uq = 10, ce_uq2 = 100\<rparr>
    \<and> 0 \<le> sint (1 :: 32 word) \<and> sint (1 :: 32 word) \<le> sint (1 :: 32 word)
    \<and> SetCoeff7
         \<lparr>ce_M = 1, ce_gradp = False, ce_norm = full, ce_scale = 1,
            ce_a = 6, ce_r = 3, ce_u = 5, ce_t = 0,
            ce_wc = [4, 0], ce_ws = [5, 0], ce_wrc = [], ce_wrs = [],
            ce_wtc = [], ce_wts = [], ce_q = 2, ce_uq = 10, ce_uq2 = 100\<rparr>
         1 7 8 9 10 11 12 =
      Some \<lparr>ce_M = 1, ce_gradp = False, ce_norm = full, ce_scale = 1,
            ce_a = 6, ce_r = 3, ce_u = 5, ce_t = 0,
            ce_wc = [4, 7], ce_ws = [5, 8], ce_wrc = [], ce_wrs = [],
            ce_wtc = [], ce_wts = [], ce_q = 2, ce_uq = 10, ce_uq2 = 100\<rparr>)
   \<and> (CircularEngine 1 True full 1 6 3 5 0 =
      Some \<lparr>ce_M = 1, ce_gradp = True, ce_norm = full, ce_scale = 1,
            ce_a = 6, ce_r = 3, ce_u = 5, ce_t = 0,
            ce_wc = [0, 0], ce_ws = [0, 0], ce_wrc = [0, 0], ce_wrs = [0, 0],
            ce_wtc = [0, 0], ce_wts = [0, 0], ce_q = 2, ce_uq = 10, ce_uq2 = 100\<rparr>
    \<and> load_coeffs
         \<lparr>ce_M = 1, ce_gradp = True, ce_norm = full, ce_scale = 1,
            ce_a = 6, ce_r = 3, ce_u = 5, ce_t = 0,
            ce_wc = [0, 0], ce_ws = [0, 0], ce_wrc = [0, 0], ce_wrs = [0, 0],
            ce_wtc = [0, 0], ce_wts = [0, 0], ce_q = 2, ce_uq = 10, ce_uq2 = 100\<rparr>
         [] =
      Some \<lparr>ce_M = 1, ce_gradp = True, ce_norm = full, ce_scale = 1,
            ce_a = 6, ce_r = 3, ce_u = 5, ce_t = 0,
            ce_wc = [0, 0], ce_ws = [0, 0], ce_wrc = [0, 0], ce_wrs = [0, 0],
            ce_wtc = [0, 0], ce_wts = [0, 0], ce_q = 2, ce_uq = 10, ce_uq2 = 100\<rparr>
    \<and> 0 \<le> sint (0 :: 32 word) \<and> sint (0 :: 32 word) \<le> sint (1 :: 32 word)
    \<and> SetCoeff7
         \<lparr>ce_M = 1, ce_gradp = True, ce_norm = full, ce_scale = 1,
            ce_a = 6, ce_r = 3, ce_u = 5, ce_t = 0,
            ce_wc = [0, 0], ce_ws = [0, 0], ce_wrc = [0, 0], ce_wrs = [0, 0],
            ce_wtc = [0, 0], ce_wts = [0, 0], ce_q = 2, ce_uq = 10, ce_uq2 = 100\<rparr>
         0 7 8 9 10 11 12 =
      Some \<lparr>ce_M = 1, ce_gradp = True, ce_norm = full, ce_scale = 1,
            ce_a = 6, ce_r = 3, ce_u = 5, ce_t = 0,
            ce_wc = [7, 0], ce_ws = [8, 0], ce_wrc = [9, 0], ce_wrs = [10, 0],
            ce_wtc = [11, 0], ce_wts = [12, 0], ce_q = 2, ce_uq = 10, ce_uq2 = 100\<rparr>)"
proof -
  let ?init = "\<lparr>ce_M = 1, ce_gradp = False, ce_norm = full, ce_scale = 1,
            ce_a = 6, ce_r = 3, ce_u = 5, ce_t = 0,
            ce_wc = [0, 0], ce_ws = [0, 0], ce_wrc = [], ce_wrs = [],
            ce_wtc = [], ce_wts = [], ce_q = 2, ce_uq = 10, ce_uq2 = 100\<rparr>"
  let ?loaded = "?init\<lparr>ce_wc := [4, 0], ce_ws := [5, 0]\<rparr>"
  let ?ginit = "\<lparr>ce_M = 1, ce_gradp = True, ce_norm = full, ce_scale = 1,
            ce_a = 6, ce_r = 3, ce_u = 5, ce_t = 0,
            ce_wc = [0, 0], ce_ws = [0, 0], ce_wrc = [0, 0], ce_wrs = [0, 0],
            ce_wtc = [0, 0], ce_wts = [0, 0], ce_q = 2, ce_uq = 10, ce_uq2 = 100\<rparr>"
  have r: "replicate 2 (0::real) = [0, 0]"
    by (simp add: numeral_2_eq_2)
  have a1: "CircularEngine 1 False full 1 6 3 5 0 = Some ?init"
    by (simp add: CircularEngine_def vector_fill_def sq_def r)
  have a2: "load_coeffs ?init [Set3 0 4 5] = Some ?loaded"
    by (simp add: SetCoeff3_def vec_set_def)
  have a3: "0 \<le> sint (1 :: 32 word)" by simp
  have a4: "sint (1 :: 32 word) \<le> sint (ce_M ?loaded)" by simp
  have b1: "CircularEngine 1 True full 1 6 3 5 0 = Some ?ginit"
    by (simp add: CircularEngine_def vector_fill_def sq_def r)
  have b2: "load_coeffs ?ginit [] = Some ?ginit" by simp
  have b3: "0 \<le> sint (0 :: 32 word)" by simp
  have b4: "sint (0 :: 32 word) \<le> sint (ce_M ?ginit)" by simp
  obtain a' where a': "SetCoeff7 ?loaded 1 7 8 9 10 11 12 = Some a'"
      "a' = ?loaded\<lparr>ce_wc := ce_wc a', ce_ws := ce_ws a'\<rparr>"
      "ce_wc a' = (ce_wc ?loaded)[nat (sint (1 :: 32 word)) := 7]"
      "ce_ws a' = (ce_ws ?loaded)[nat (sint (1 :: 32 word)) := 8]"
    using SetCoeff7_frame [OF a1 a2 a3 a4, of 7 8 9 10 11 12] by auto
  obtain b' where b': "SetCoeff7 ?ginit 0 7 8 9 10 11 12 = Some b'"
      "b' = ?ginit\<lparr>ce_wc := ce_wc b', ce_ws := ce_ws b', ce_wrc := ce_wrc b',
                   ce_wrs := ce_wrs b', ce_wtc := ce_wtc b', ce_wts := ce_wts b'\<rparr>"
      "ce_wc b' = (ce_wc ?ginit)[nat (sint (0 :: 32 word)) := 7]"
      "ce_ws b' = (ce_ws ?ginit)[nat (sint (0 :: 32 word)) := 8]"
      "ce_wrc b' = (ce_wrc ?ginit)[nat (sint (0 :: 32 word)) := 9]"
      "ce_wrs b' = (ce_wrs ?ginit)[nat (sint (0 :: 32 word)) := 10]"
      "ce_wtc b' = (ce_wtc ?ginit)[nat (sint (0 :: 32 word)) := 11]"
      "ce_wts b' = (ce_wts ?ginit)[nat (sint (0 :: 32 word)) := 12]"
    using SetCoeff7_frame [OF b1 b2 b3 b4, of 7 8 9 10 11 12] by auto
  have "a' = ?loaded\<lparr>ce_wc := [4, 7], ce_ws := [5, 8]\<rparr>"
    using a'(2) unfolding a'(3,4) by simp
  moreover have "b' = ?ginit\<lparr>ce_wc := [7, 0], ce_ws := [8, 0], ce_wrc := [9, 0],
                   ce_wrs := [10, 0], ce_wtc := [11, 0], ce_wts := [12, 0]\<rparr>"
    using b'(2) unfolding b'(3-8) by simp
  ultimately show ?thesis
    using a1 a2 a'(1) b1 b'(1) by simp
qed

text \<open>
  C9: on an evaluator built with \<open>M \<ge> 0\<close>, every loading sequence whose orders lie in
  \<open>[0, M]\<close> runs without an access out of bounds, and after it either overload of
  \<^verbatim>\<open>SetCoeff\<close> with \<open>0 \<le> m \<le> M\<close> is within bounds as well; the value arrays have length
  \<open>M + 1\<close>, and so have the gradient arrays when \<^verbatim>\<open>_gradp\<close> holds, the only case in
  which they are indexed.
\<close>

theorem SetCoeff_in_bounds:
  assumes "CircularEngine M gradp nrm scale a r u t = Some e0"
    and "0 \<le> sint M"
    and "\<forall>c \<in> set cs. 0 \<le> sint (call_order c) \<and> sint (call_order c) \<le> sint M"
    and "0 \<le> sint m" and "sint m \<le> sint M"
  shows "\<exists>e. load_coeffs e0 cs = Some e
    \<and> SetCoeff3 e m wc ws \<noteq> None
    \<and> SetCoeff7 e m wc ws wrc wrs wtc wts \<noteq> None
    \<and> int (length (ce_wc e)) = sint M + 1 \<and> int (length (ce_ws e)) = sint M + 1
    \<and> (ce_gradp e \<longrightarrow>
         int (length (ce_wrc e)) = sint M + 1 \<and> int (length (ce_wrs e)) = sint M + 1
         \<and> int (length (ce_wtc e)) = sint M + 1 \<and> int (length (ce_wts e)) = sint M + 1)"
proof -
  have M0: "ce_M e0 = M"
    using CircularEngine_Some(2) [OF assms(1)] by simp
  have sz0: "sized e0" using assms(1) by (rule sized_CircularEngine)
  then obtain e where e: "load_coeffs e0 cs = Some e"
    using load_coeffs_sized [of e0 cs] assms(3) M0 by auto
  have sz: "sized e" using sz0 e by (rule load_coeffs_keeps_sized)
  have M: "ce_M e = M" using load_coeffs_keeps_M [OF e] M0 by simp
  have m: "sint m \<le> sint (ce_M e)" using assms(5) M by simp
  have "SetCoeff3 e m wc ws \<noteq> None"
    by (simp add: SetCoeff3_sized [OF sz assms(4) m])
  moreover have "SetCoeff7 e m wc ws wrc wrs wtc wts \<noteq> None"
    by (simp add: SetCoeff7_sized [OF sz assms(4) m])
  moreover have "int (length (ce_wc e)) = sint M + 1" "int (length (ce_ws e)) = sint M + 1"
    using sz M assms(2) by (simp_all add: sized_def)
  moreover have "ce_gradp e \<longrightarrow>
         int (length (ce_wrc e)) = sint M + 1 \<and> int (length (ce_wrs e)) = sint M + 1
         \<and> int (length (ce_wtc e)) = sint M + 1 \<and> int (length (ce_wts e)) = sint M + 1"
    using sz M assms(2) by (simp add: sized_def)
  ultimately show ?thesis using e by blast
qed


theorem SetCoeff_in_bounds_witness:
  "(CircularEngine 1 True full 1 6 3 5 0 =
      Some \<lparr>ce_M = 1, ce_gradp = True, ce_norm = full, ce_scale = 1,
            ce_a = 6, ce_r = 3, ce_u = 5, ce_t = 0,
            ce_wc = [0, 0], ce_ws = [0, 0], ce_wrc = [0, 0], ce_wrs = [0, 0],
            ce_wtc = [0, 0], ce_wts = [0, 0], ce_q = 2, ce_uq = 10, ce_uq2 = 100\<rparr>
    \<and> 0 \<le> sint (1 :: 32 word)
    \<and> 0 \<le> sint (call_order (Set7 0 1 2 3 4 5 6))
    \<and> sint (call_order (Set7 0 1 2 3 4 5 6)) \<le> sint (1 :: 32 word)
    \<and> 0 \<le> sint (call_order (Set3 1 7 8))
    \<and> sint (call_order (Set3 1 7 8)) \<le> sint (1 :: 32 word)
    \<and> sint (1 :: 32 word) \<le> sint (1 :: 32 word)
    \<and> (\<exists>e. load_coeffs
              \<lparr>ce_M = 1, ce_gradp = True, ce_norm = full, ce_scale = 1,
                 ce_a = 6, ce_r = 3, ce_u = 5, ce_t = 0,
                 ce_wc = [0, 0], ce_ws = [0, 0], ce_wrc = [0, 0], ce_wrs = [0, 0],
                 ce_wtc = [0, 0], ce_wts = [0, 0], ce_q = 2, ce_uq = 10, ce_uq2 = 100\<rparr>
              [Set7 0 1 2 3 4 5 6, Set3 1 7 8] = Some e
          \<and> ce_gradp e
          \<and> SetCoeff3 e 1 8 9 \<noteq> None
          \<and> SetCoeff7 e 1 8 9 10 11 12 13 \<noteq> None
          \<and> int (length (ce_wc e)) = 2 \<and> int (length (ce_wts e)) = 2))
   \<and> (CircularEngine 0 False full 1 6 3 5 0 =
      Some \<lparr>ce_M = 0, ce_gradp = False, ce_norm = full, ce_scale = 1,
            ce_a = 6, ce_r = 3, ce_u = 5, ce_t = 0,
            ce_wc = [0], ce_ws = [0], ce_wrc = [], ce_wrs = [],
            ce_wtc = [], ce_wts = [], ce_q = 2, ce_uq = 10, ce_uq2 = 100\<rparr>
    \<and> 0 \<le> sint (0 :: 32 word)
    \<and> (\<exists>e. load_coeffs
              \<lparr>ce_M = 0, ce_gradp = False, ce_norm = full, ce_scale = 1,
                 ce_a = 6, ce_r = 3, ce_u = 5, ce_t = 0,
                 ce_wc = [0], ce_ws = [0], ce_wrc = [], ce_wrs = [],
                 ce_wtc = [], ce_wts = [], ce_q = 2, ce_uq = 10, ce_uq2 = 100\<rparr>
              [] = Some e
          \<and> \<not> ce_gradp e
          \<and> SetCoeff3 e 0 8 9 \<noteq> None
          \<and> SetCoeff7 e 0 8 9 10 11 12 13 \<noteq> None
          \<and> int (length (ce_wc e)) = 1 \<and> length (ce_wts e) = 0))"
proof -
  let ?ginit = "\<lparr>ce_M = 1, ce_gradp = True, ce_norm = full, ce_scale = 1,
            ce_a = 6, ce_r = 3, ce_u = 5, ce_t = 0,
            ce_wc = [0, 0], ce_ws = [0, 0], ce_wrc = [0, 0], ce_wrs = [0, 0],
            ce_wtc = [0, 0], ce_wts = [0, 0], ce_q = 2, ce_uq = 10, ce_uq2 = 100\<rparr>"
  let ?init = "\<lparr>ce_M = 0, ce_gradp = False, ce_norm = full, ce_scale = 1,
            ce_a = 6, ce_r = 3, ce_u = 5, ce_t = 0,
            ce_wc = [0], ce_ws = [0], ce_wrc = [], ce_wrs = [],
            ce_wtc = [], ce_wts = [], ce_q = 2, ce_uq = 10, ce_uq2 = 100\<rparr>"
  let ?calls = "[Set7 0 1 2 3 4 5 6, Set3 1 7 8]"
  have r: "replicate 2 (0::real) = [0, 0]"
    by (simp add: numeral_2_eq_2)
  have g1: "CircularEngine 1 True full 1 6 3 5 0 = Some ?ginit"
    by (simp add: CircularEngine_def vector_fill_def sq_def r)
  have g2: "0 \<le> sint (1 :: 32 word)" by simp
  have g3: "\<forall>c \<in> set ?calls.
          0 \<le> sint (call_order c) \<and> sint (call_order c) \<le> sint (1 :: 32 word)"
    by simp
  have g4: "sint (1 :: 32 word) \<le> sint (1 :: 32 word)" by simp
  have gp: "ce_gradp e" if "load_coeffs ?ginit ?calls = Some e" for e
    using that by (auto simp: SetCoeff3_def SetCoeff7_def vec_set_def Let_def)
  have n1: "CircularEngine 0 False full 1 6 3 5 0 = Some ?init"
    by (simp add: CircularEngine_def vector_fill_def sq_def)
  have n2: "0 \<le> sint (0 :: 32 word)" by simp
  have n3: "\<forall>c \<in> set ([] :: coeff_call list).
          0 \<le> sint (call_order c) \<and> sint (call_order c) \<le> sint (0 :: 32 word)"
    by simp
  have n4: "sint (0 :: 32 word) \<le> sint (0 :: 32 word)" by simp
  have "\<exists>e. load_coeffs ?ginit ?calls = Some e
          \<and> ce_gradp e
          \<and> SetCoeff3 e 1 8 9 \<noteq> None
          \<and> SetCoeff7 e 1 8 9 10 11 12 13 \<noteq> None
          \<and> int (length (ce_wc e)) = 2 \<and> int (length (ce_wts e)) = 2"
    using SetCoeff_in_bounds [OF g1 g2 g3 g2 g4, of 8 9 10 11 12 13] gp by auto
  moreover have "\<exists>e. load_coeffs ?init [] = Some e
          \<and> \<not> ce_gradp e
          \<and> SetCoeff3 e 0 8 9 \<noteq> None
          \<and> SetCoeff7 e 0 8 9 10 11 12 13 \<noteq> None
          \<and> int (length (ce_wc e)) = 1 \<and> length (ce_wts e) = 0"
    using SetCoeff_in_bounds [OF n1 n2 n3 n2 n4, of 8 9 10 11 12 13] by auto
  ultimately show ?thesis using g1 g2 g3 g4 n1 n2 by simp
qed

end
